theory Spec2Isabelle
  imports Main
begin

section \<open>The authentication service of remix-bunjs\<close>

text \<open>
  The development embeds \<^verbatim>\<open>AuthService\<close> (app/services/auth-service.ts) over the
  four tables of db/schema.ts. A table is the list of its rows in insertion order; a
  query is a function on that list. Every method is a function from the database
  before the call to a pair: what the awaited promise settles to, and the database after
  the call. A promise that rejects (an insert that breaks a primary key or a unique
  index throws) leaves the rows written before the throw in place, since the service
  opens no transaction.
\<close>

subsection \<open>Rows and tables (db/schema.ts)\<close>

text \<open>A \<^verbatim>\<open>Date\<close> is its \<^verbatim>\<open>getTime()\<close>: milliseconds since the epoch.\<close>

type_synonym date = int

record user_row =
  u_id :: string
  u_email :: string
  u_emailVerified :: bool
  u_passwordHash :: string
  u_createdAt :: date

record session_row =
  s_id :: string
  s_expiresAt :: date
  s_userId :: string

record code_row =
  c_id :: nat
  c_code :: string
  c_userId :: string
  c_email :: string
  c_expiresAt :: date

record token_row =
  t_tokenHash :: string
  t_userId :: string
  t_expiresAt :: date

record database =
  users :: "user_row list"
  sessions :: "session_row list"
  emailVerificationCodes :: "code_row list"
  passwordResetTokens :: "token_row list"

subsection \<open>Results and promises (app/lib/types.ts)\<close>

datatype error =
    user_exists
  | user_not_found
  | invalid_credentials
  | email_send_error
  | invalid_session
  | invalid_code
  | expired_code
  | code_expired
  | email_not_found

text \<open>\<^verbatim>\<open>Result<T, E>\<close>: the tagged union with \<^verbatim>\<open>type: "success" | "failure"\<close>.\<close>

datatype ('t, 'e) result = Success 't | Failure 'e

text \<open>An awaited promise either resolves to a value or rejects (the await throws).\<close>

datatype 'a promise = Resolved 'a | Rejected

text \<open>\<^verbatim>\<open>User = Pick<UserDB, "id" | "email" | "emailVerified">\<close>.\<close>

record User =
  user_id :: string
  user_email :: string
  user_emailVerified :: bool

text \<open>The data of a successful \<^verbatim>\<open>validateSession\<close>; the optional field is an option.\<close>

record validated =
  v_user :: User
  v_freshSessionId :: "string option"

text \<open>
  Sequencing of awaits: when the first step rejects, the method rejects with the
  database as that step left it; otherwise the rest runs on the value and the database
  the step produced.
\<close>

definition await :: "'a promise \<times> database \<Rightarrow> ('a \<Rightarrow> database \<Rightarrow> 'b promise \<times> database)
    \<Rightarrow> 'b promise \<times> database" where
  "await p k = (case p of (Rejected, db) \<Rightarrow> (Rejected, db) | (Resolved a, db) \<Rightarrow> k a db)"

subsection \<open>What the service is constructed with, and what one call draws\<close>

text \<open>
  The collaborators that the service calls and that are no part of the repository are
  parameters: the runtime's password hashing (\<^verbatim>\<open>Bun.password.hash\<close>, which draws a
  salt and is awaited, so it resolves to the hash or rejects, as it does on the empty
  password; and \<^verbatim>\<open>Bun.password.verify\<close>), the runtime's \<^verbatim>\<open>CryptoHasher("sha256")\<close> with
  its hex digest, the injected \<^verbatim>\<open>EmailServiceInterface\<close>, and what a \<^verbatim>\<open>Date\<close>
  written to a column declared \<^verbatim>\<open>integer(..., { mode: "timestamp" })\<close> reads back as.
\<close>

record deps =
  password_hash :: "string \<Rightarrow> string \<Rightarrow> string promise"
  password_verify :: "string \<Rightarrow> string \<Rightarrow> bool"
  sha256_hex :: "string \<Rightarrow> string"
  sendConfirmEmail :: "string \<Rightarrow> string \<Rightarrow> (unit, error) result"
  sendResetPasswordEmail :: "string \<Rightarrow> string \<Rightarrow> (unit, error) result"
  dbTimestamp :: "date \<Rightarrow> date"

text \<open>
  One call reads the clock and draws random strings. They are inputs of the call:
  \<open>now\<close> is \<^verbatim>\<open>Date.now()\<close> (one reading for the whole call),
  \<open>randomUserId\<close> is \<^verbatim>\<open>generateIdFromEntropySize(10)\<close> in signup,
  \<open>randomCode\<close> is \<^verbatim>\<open>generateRandomString(8, alphabet("0-9"))\<close>,
  \<open>randomTokenId\<close> is \<^verbatim>\<open>generateIdFromEntropySize(25)\<close> in createPasswordResetToken,
  \<open>randomSessionId\<close> is the identifier the session library generates, and
  \<open>randomSalt\<close> is the salt of \<^verbatim>\<open>Bun.password.hash\<close>.
\<close>

record env =
  now :: date
  randomUserId :: string
  randomCode :: string
  randomTokenId :: string
  randomSessionId :: string
  randomSalt :: string

text \<open>\<^verbatim>\<open>new TimeSpan(n, unit)\<close> in milliseconds, and \<^verbatim>\<open>createDate\<close> (package oslo).\<close>

datatype time_unit = Minutes | Hours | Days

fun milliseconds :: "int \<Rightarrow> time_unit \<Rightarrow> int" where
  "milliseconds n Minutes = n * 60000"
| "milliseconds n Hours = n * 3600000"
| "milliseconds n Days = n * 86400000"

definition createDate :: "env \<Rightarrow> int \<Rightarrow> date" where
  "createDate e span = now e + span"

subsection \<open>Inserts under the constraints of the schema\<close>

text \<open>
  \<^verbatim>\<open>user.id\<close>, \<^verbatim>\<open>session.id\<close> and \<^verbatim>\<open>password_reset_token.token_hash\<close> are primary
  keys; \<^verbatim>\<open>email_verification_code.user_id\<close> and \<^verbatim>\<open>password_reset_token.user_id\<close>
  carry a unique index. An insert that would repeat such a value throws and writes
  nothing. The integer primary key of \<^verbatim>\<open>email_verification_code\<close> is not given by the
  service: the store assigns one above every id in the table.
\<close>

definition insert_user :: "user_row \<Rightarrow> database \<Rightarrow> unit promise \<times> database" where
  "insert_user row db =
     (if u_id row \<in> u_id ` set (users db) then (Rejected, db)
      else (Resolved (), db\<lparr>users := users db @ [row]\<rparr>))"

definition insert_session :: "session_row \<Rightarrow> database \<Rightarrow> unit promise \<times> database" where
  "insert_session row db =
     (if s_id row \<in> s_id ` set (sessions db) then (Rejected, db)
      else (Resolved (), db\<lparr>sessions := sessions db @ [row]\<rparr>))"

definition next_code_id :: "code_row list \<Rightarrow> nat" where
  "next_code_id rows = Suc (foldr (\<lambda>r m. max (c_id r) m) rows 0)"

definition insert_emailVerificationCode ::
    "string \<Rightarrow> string \<Rightarrow> string \<Rightarrow> date \<Rightarrow> database \<Rightarrow> unit promise \<times> database" where
  "insert_emailVerificationCode userId email code expiresAt db =
     (if userId \<in> c_userId ` set (emailVerificationCodes db) then (Rejected, db)
      else (Resolved (),
            db\<lparr>emailVerificationCodes := emailVerificationCodes db @
                 [\<lparr>c_id = next_code_id (emailVerificationCodes db), c_code = code,
                   c_userId = userId, c_email = email, c_expiresAt = expiresAt\<rparr>]\<rparr>))"

definition insert_passwordResetToken :: "token_row \<Rightarrow> database \<Rightarrow> unit promise \<times> database" where
  "insert_passwordResetToken row db =
     (if t_tokenHash row \<in> t_tokenHash ` set (passwordResetTokens db)
         \<or> t_userId row \<in> t_userId ` set (passwordResetTokens db)
      then (Rejected, db)
      else (Resolved (), db\<lparr>passwordResetTokens := passwordResetTokens db @ [row]\<rparr>))"

subsection \<open>The session library\<close>

text \<open>
  The service delegates sessions to the package lucia, which the repository configures
  (\<^verbatim>\<open>initializeLucia\<close>) but does not contain. \<open>getUserAttributes\<close> is the projection
  the repository passes to it.
\<close>

definition getUserAttributes :: "user_row \<Rightarrow> User" where
  "getUserAttributes row =
     \<lparr>user_id = u_id row, user_email = u_email row, user_emailVerified = u_emailVerified row\<rparr>"

text \<open>What \<^verbatim>\<open>lucia.validateSession\<close> hands back as the session.\<close>

record lucia_session =
  ls_id :: string
  ls_userId :: string
  ls_fresh :: bool
  ls_expiresAt :: date

definition lucia_createSession :: "env \<Rightarrow> string \<Rightarrow> database \<Rightarrow> session_row promise \<times> database" where
  \<comment> \<open>Modelled from the spec: lucia's createSession is not in the repository. Spec 4.1:
      "generates a high-entropy identifier, persists with expiresAt = now + 30 days". The
      row goes into the session table of db/schema.ts, whose id is the primary key.\<close>
  "lucia_createSession e userId db =
     (let session = \<lparr>s_id = randomSessionId e,
                     s_expiresAt = createDate e (milliseconds 30 Days),
                     s_userId = userId\<rparr>
      in await (insert_session session db) (\<lambda>_ db'. (Resolved session, db')))"

definition lucia_invalidateUserSessions :: "string \<Rightarrow> database \<Rightarrow> unit promise \<times> database" where
  \<comment> \<open>Modelled from the spec: lucia's invalidateUserSessions is not in the repository.
      Spec 4.1: "deletes all sessions for that user".\<close>
  "lucia_invalidateUserSessions userId db =
     (Resolved (), db\<lparr>sessions := filter (\<lambda>s. s_userId s \<noteq> userId) (sessions db)\<rparr>)"

definition lucia_invalidateSession :: "string \<Rightarrow> database \<Rightarrow> unit promise \<times> database" where
  \<comment> \<open>Modelled from the spec: lucia's invalidateSession is not in the repository.
      Spec 4.1: "deletes one session; idempotent, no error if already absent".\<close>
  "lucia_invalidateSession sessionId db =
     (Resolved (), db\<lparr>sessions := filter (\<lambda>s. s_id s \<noteq> sessionId) (sessions db)\<rparr>)"

definition lucia_validateSession ::
    "env \<Rightarrow> string \<Rightarrow> database \<Rightarrow> (lucia_session option \<times> User option) promise \<times> database" where
  \<comment> \<open>Modelled from the spec: lucia's validateSession is not in the repository. Spec 4.1:
      "fails with invalid_session if the session does not exist or its user does not
      exist. If expiresAt - now < 15 days, treats the session as fresh-needed: rotates by
      creating a new session identifier (same user, new 30-day expiry) and reports it to
      the caller; the old identifier is superseded. Otherwise returns the existing
      identifier unchanged."\<close>
  "lucia_validateSession e sessionId db =
     (case find (\<lambda>s. s_id s = sessionId) (sessions db) of
        None \<Rightarrow> (Resolved (None, None), db)
      | Some s \<Rightarrow>
          (case find (\<lambda>u. u_id u = s_userId s) (users db) of
             None \<Rightarrow> (Resolved (None, None), db)
           | Some u \<Rightarrow>
               if s_expiresAt s - now e < milliseconds 15 Days
               then await (lucia_invalidateSession sessionId db) (\<lambda>_ db1.
                    await (lucia_createSession e (s_userId s) db1) (\<lambda>session db2.
                      (Resolved (Some \<lparr>ls_id = s_id session, ls_userId = s_userId session,
                                        ls_fresh = True, ls_expiresAt = s_expiresAt session\<rparr>,
                                 Some (getUserAttributes u)), db2)))
               else (Resolved (Some \<lparr>ls_id = s_id s, ls_userId = s_userId s,
                                      ls_fresh = False, ls_expiresAt = s_expiresAt s\<rparr>,
                               Some (getUserAttributes u)), db)))"

subsection \<open>AuthService (app/services/auth-service.ts)\<close>

definition validateSession ::
    "env \<Rightarrow> string \<Rightarrow> database \<Rightarrow> (validated, error) result promise \<times> database" where
  "validateSession e sessionId db =
     await (lucia_validateSession e sessionId db) (\<lambda>(session, user) db'.
       case user of
         None \<Rightarrow> (Resolved (Failure invalid_session), db')
       | Some u \<Rightarrow>
           (case session of
              Some s \<Rightarrow>
                if ls_fresh s
                then (Resolved (Success \<lparr>v_user = u, v_freshSessionId = Some (ls_id s)\<rparr>), db')
                else (Resolved (Success \<lparr>v_user = u, v_freshSessionId = None\<rparr>), db')
            | None \<Rightarrow> (Resolved (Success \<lparr>v_user = u, v_freshSessionId = None\<rparr>), db')))"

definition createEmailVerificationCode ::
    "deps \<Rightarrow> env \<Rightarrow> string \<Rightarrow> string \<Rightarrow> database \<Rightarrow> (unit, error) result promise \<times> database" where
  "createEmailVerificationCode d e userId email db =
     (let db1 = db\<lparr>emailVerificationCodes :=
                     filter (\<lambda>c. c_userId c \<noteq> userId) (emailVerificationCodes db)\<rparr>;
          code = randomCode e
      in await (insert_emailVerificationCode userId email code
                  (dbTimestamp d (createDate e (milliseconds 15 Minutes))) db1) (\<lambda>_ db2.
           case sendConfirmEmail d email code of
             Failure _ \<Rightarrow> (Resolved (Failure email_send_error), db2)
           | Success _ \<Rightarrow> (Resolved (Success ()), db2)))"

definition signup ::
    "deps \<Rightarrow> env \<Rightarrow> string \<Rightarrow> string \<Rightarrow> database \<Rightarrow> (string, error) result promise \<times> database" where
  "signup d e email password db =
     (case find (\<lambda>u. u_email u = email) (users db) of
        Some _ \<Rightarrow> (Resolved (Failure user_exists), db)
      | None \<Rightarrow>
          await (password_hash d (randomSalt e) password, db) (\<lambda>passwordHash db0.
            (let userId = randomUserId e
             in await (insert_user \<lparr>u_id = userId, u_email = email, u_emailVerified = False,
                                     u_passwordHash = passwordHash,
                                     u_createdAt = dbTimestamp d (now e)\<rparr> db0) (\<lambda>_ db1.
                await (createEmailVerificationCode d e userId email db1) (\<lambda>_ db2.
                await (lucia_createSession e userId db2) (\<lambda>session db3.
                  (Resolved (Success (s_id session)), db3)))))))"

definition login ::
    "deps \<Rightarrow> env \<Rightarrow> string \<Rightarrow> string \<Rightarrow> database \<Rightarrow> (string, error) result promise \<times> database" where
  "login d e email password db =
     (case find (\<lambda>u. u_email u = email) (users db) of
        None \<Rightarrow> (Resolved (Failure user_not_found), db)
      | Some user \<Rightarrow>
          if password_verify d password (u_passwordHash user) = False
          then (Resolved (Failure invalid_credentials), db)
          else await (lucia_createSession e (u_id user) db) (\<lambda>session db'.
                 (Resolved (Success (s_id session)), db')))"

datatype code_check = valid | expired | invalid

definition checkEmailCode :: "env \<Rightarrow> User \<Rightarrow> string \<Rightarrow> database \<Rightarrow> code_check promise \<times> database" where
  "checkEmailCode e user code db =
     (case find (\<lambda>c. c_userId c = user_id user) (emailVerificationCodes db) of
        None \<Rightarrow> (Resolved invalid, db)
      | Some emailVerificationCode \<Rightarrow>
          if code \<noteq> c_code emailVerificationCode then (Resolved invalid, db)
          else
            (let db' = db\<lparr>emailVerificationCodes :=
                            filter (\<lambda>c. c_id c \<noteq> c_id emailVerificationCode)
                              (emailVerificationCodes db)\<rparr>
             in if c_expiresAt emailVerificationCode < now e then (Resolved expired, db')
                else if c_email emailVerificationCode \<noteq> user_email user
                then (Resolved expired, db')
                else (Resolved valid, db')))"

definition verifyEmailCode ::
    "env \<Rightarrow> User \<Rightarrow> string \<Rightarrow> database \<Rightarrow> (string, error) result promise \<times> database" where
  "verifyEmailCode e user code db =
     await (checkEmailCode e user code db) (\<lambda>response db1.
       if response = invalid then (Resolved (Failure invalid_code), db1)
       else if response = expired then (Resolved (Failure expired_code), db1)
       else
         (let db2 = db1\<lparr>users := map (\<lambda>u. if u_id u = user_id user
                                            then u\<lparr>u_emailVerified := True\<rparr> else u)
                                      (users db1)\<rparr>
          in await (lucia_invalidateUserSessions (user_id user) db2) (\<lambda>_ db3.
             await (lucia_createSession e (user_id user) db3) (\<lambda>session db4.
               (Resolved (Success (s_id session)), db4)))))"

definition logout :: "string \<Rightarrow> database \<Rightarrow> (unit, error) result promise \<times> database" where
  "logout sessionId db =
     (case lucia_invalidateSession sessionId db of
        (Rejected, db') \<Rightarrow> (Resolved (Success ()), db')
      | (Resolved _, db') \<Rightarrow> (Resolved (Success ()), db'))"

definition createPasswordResetToken ::
    "deps \<Rightarrow> env \<Rightarrow> string \<Rightarrow> database \<Rightarrow> string promise \<times> database" where
  "createPasswordResetToken d e userId db =
     (let db1 = db\<lparr>passwordResetTokens :=
                     filter (\<lambda>t. t_userId t \<noteq> userId) (passwordResetTokens db)\<rparr>;
          tokenId = randomTokenId e;
          tokenHash = sha256_hex d tokenId
      in await (insert_passwordResetToken
                  \<lparr>t_tokenHash = tokenHash, t_userId = userId,
                   t_expiresAt = dbTimestamp d (createDate e (milliseconds 2 Hours))\<rparr> db1)
           (\<lambda>_ db2. (Resolved tokenId, db2)))"

definition resetPasswordRequest ::
    "deps \<Rightarrow> env \<Rightarrow> string \<Rightarrow> string \<Rightarrow> database \<Rightarrow> (string, error) result promise \<times> database" where
  "resetPasswordRequest d e domain email db =
     (case find (\<lambda>u. u_email u = email) (users db) of
        None \<Rightarrow> (Resolved (Failure email_not_found), db)
      | Some user \<Rightarrow>
          await (createPasswordResetToken d e (u_id user) db) (\<lambda>tokenId db'.
            (let verificationLink = domain @ ''/reset-password?token='' @ tokenId
             in case sendResetPasswordEmail d email verificationLink of
                  Failure _ \<Rightarrow> (Resolved (Failure email_send_error), db')
                | Success _ \<Rightarrow> (Resolved (Success tokenId), db'))))"

definition resetPassword ::
    "deps \<Rightarrow> env \<Rightarrow> string \<Rightarrow> string \<Rightarrow> database \<Rightarrow> (string, error) result promise \<times> database" where
  "resetPassword d e newPassword token db =
     (let tokenHash = sha256_hex d token
      in case find (\<lambda>t. t_tokenHash t = tokenHash) (passwordResetTokens db) of
           None \<Rightarrow> (Resolved (Failure invalid_code), db)
         | Some passwordResetToken \<Rightarrow>
             if t_expiresAt passwordResetToken < now e
             then (Resolved (Failure code_expired), db)
             else
               await (lucia_invalidateUserSessions (t_userId passwordResetToken) db) (\<lambda>_ db1.
               await (password_hash d (randomSalt e) newPassword, db1) (\<lambda>passwordHash db1'.
                 (let db2 = db1'\<lparr>users := map (\<lambda>u. if u_id u = t_userId passwordResetToken
                                                      then u\<lparr>u_passwordHash := passwordHash\<rparr>
                                                      else u) (users db1')\<rparr>
                  in await (lucia_createSession e (t_userId passwordResetToken) db2)
                       (\<lambda>session db3. (Resolved (Success (s_id session)), db3))))))"

subsection \<open>A small instance\<close>

text \<open>
  Stand-ins for the collaborators and one small database, on which the service is run
  in the examples below. \<open>deps0\<close> hashes a password by writing the salt before it,
  rejects the empty password as \<^verbatim>\<open>Bun.password.hash\<close> does, and digests a token by
  writing a mark before it; its email service always succeeds, that of
  \<open>deps_fail\<close> never delivers the confirmation email; a timestamp column keeps whole
  seconds.
\<close>

definition deps0 :: deps where
  "deps0 = \<lparr>password_hash = (\<lambda>salt pw. if pw = [] then Rejected
                                          else Resolved (salt @ ''$'' @ pw)),
            password_verify = (\<lambda>pw h. dropWhile (\<lambda>c. c \<noteq> CHR ''$'') h = ''$'' @ pw),
            sha256_hex = (\<lambda>s. ''#'' @ s),
            sendConfirmEmail = (\<lambda>_ _. Success ()),
            sendResetPasswordEmail = (\<lambda>_ _. Success ()),
            dbTimestamp = (\<lambda>t. (t div 1000) * 1000)\<rparr>"

definition deps_fail :: deps where
  "deps_fail = deps0\<lparr>sendConfirmEmail := (\<lambda>_ _. Failure email_send_error)\<rparr>"

definition env0 :: env where
  "env0 = \<lparr>now = 1000000, randomUserId = ''u2'', randomCode = ''12345678'',
           randomTokenId = ''tok'', randomSessionId = ''s2'', randomSalt = ''salt''\<rparr>"

definition user0 :: user_row where
  "user0 = \<lparr>u_id = ''u1'', u_email = ''a@test.com'', u_emailVerified = False,
            u_passwordHash = ''salt$pw'', u_createdAt = 0\<rparr>"

definition code0 :: code_row where
  "code0 = \<lparr>c_id = 1, c_code = ''11112222'', c_userId = ''u1'', c_email = ''a@test.com'',
            c_expiresAt = 1900000\<rparr>"

definition session0 :: session_row where
  "session0 = \<lparr>s_id = ''s1'', s_expiresAt = 2592000000, s_userId = ''u1''\<rparr>"

definition token0 :: token_row where
  "token0 = \<lparr>t_tokenHash = ''#tok'', t_userId = ''u1'', t_expiresAt = 8200000\<rparr>"

definition db0 :: database where
  "db0 = \<lparr>users = [user0], sessions = [session0], emailVerificationCodes = [code0],
          passwordResetTokens = []\<rparr>"

definition db1 :: database where
  "db1 = \<lparr>users = [user0], sessions = [session0], emailVerificationCodes = [code0],
          passwordResetTokens = [token0]\<rparr>"

section \<open>Properties\<close>

subsection \<open>Auxiliary facts\<close>

lemma await_Resolved [simp]: "await (Resolved a, db) k = k a db"
  by (simp add: await_def)

lemma await_Rejected [simp]: "await (Rejected, db) k = (Rejected, db)"
  by (simp add: await_def)

lemma await_pair:
  "await (p, db) k = (case p of Rejected \<Rightarrow> (Rejected, db) | Resolved a \<Rightarrow> k a db)"
  by (cases p) simp_all

lemma find_SomeD: "find P xs = Some x \<Longrightarrow> P x \<and> x \<in> set xs"
  by (induction xs) (auto split: if_splits)

lemma find_snoc:
  "find P (xs @ [x]) = (case find P xs of Some y \<Rightarrow> Some y | None \<Rightarrow> if P x then Some x else None)"
  by (induction xs) auto

lemma lucia_createSession_fresh:
  "randomSessionId e \<notin> s_id ` set (sessions db) \<Longrightarrow>
   lucia_createSession e userId db =
     (Resolved \<lparr>s_id = randomSessionId e, s_expiresAt = now e + milliseconds 30 Days, s_userId = userId\<rparr>,
      db\<lparr>sessions := sessions db @
        [\<lparr>s_id = randomSessionId e, s_expiresAt = now e + milliseconds 30 Days, s_userId = userId\<rparr>]\<rparr>)"
  by (simp add: lucia_createSession_def insert_session_def createDate_def Let_def)

lemma createSession_frame:
  "emailVerificationCodes (snd (await (lucia_createSession e userId db) (\<lambda>session. Pair (f session)))) =
     emailVerificationCodes db"
  "passwordResetTokens (snd (await (lucia_createSession e userId db) (\<lambda>session. Pair (f session)))) =
     passwordResetTokens db"
  "users (snd (await (lucia_createSession e userId db) (\<lambda>session. Pair (f session)))) = users db"
  by (simp_all add: lucia_createSession_def insert_session_def Let_def)

subsection \<open>When the password hashing rejects\<close>

text \<open>
  A password that \<^verbatim>\<open>Bun.password.hash\<close> rejects makes the awaiting method reject at
  that point: signup before it has written anything, resetPassword after it has deleted
  the sessions of the token's user and before it touches the user row.
\<close>

lemma signup_hash_rejected:
  assumes "find (\<lambda>u. u_email u = email) (users db) = None"
    and "password_hash d (randomSalt e) password = Rejected"
  shows "signup d e email password db = (Rejected, db)"
  using assms by (simp add: signup_def)

lemma resetPassword_hash_rejected:
  assumes "find (\<lambda>t. t_tokenHash t = sha256_hex d token) (passwordResetTokens db) = Some row"
    and "\<not> t_expiresAt row < now e"
    and "password_hash d (randomSalt e) newPassword = Rejected"
  shows "resetPassword d e newPassword token db =
           (Rejected, db\<lparr>sessions := filter (\<lambda>s. s_userId s \<noteq> t_userId row) (sessions db)\<rparr>)"
  using assms by (simp add: resetPassword_def lucia_invalidateUserSessions_def)

subsection \<open>Signup when the confirmation email cannot be sent\<close>

text \<open>
  Claim C1, as the code has it. When the email is not yet registered, the password
  hashing accepts the password, the email service fails to send the confirmation email,
  and the generated user and session identifiers are not in use, signup inserts the user row, stores the verification code, creates a
  session and resolves to success with the new session identifier. The call of
  createEmailVerificationCode inside it does resolve to the failure
  \<open>email_send_error\<close>, but signup does not look at what it resolves to.
\<close>

theorem signup_discards_email_failure:
  assumes "find (\<lambda>u. u_email u = email) (users db) = None"
    and "password_hash d (randomSalt e) password = Resolved passwordHash"
    and "sendConfirmEmail d email (randomCode e) = Failure err"
    and "randomUserId e \<notin> u_id ` set (users db)"
    and "randomSessionId e \<notin> s_id ` set (sessions db)"
  shows "signup d e email password db =
           (Resolved (Success (randomSessionId e)),
            db\<lparr>users := users db @
                 [\<lparr>u_id = randomUserId e, u_email = email, u_emailVerified = False,
                   u_passwordHash = passwordHash,
                   u_createdAt = dbTimestamp d (now e)\<rparr>],
               emailVerificationCodes :=
                 filter (\<lambda>c. c_userId c \<noteq> randomUserId e) (emailVerificationCodes db) @
                 [\<lparr>c_id = next_code_id
                            (filter (\<lambda>c. c_userId c \<noteq> randomUserId e) (emailVerificationCodes db)),
                   c_code = randomCode e, c_userId = randomUserId e, c_email = email,
                   c_expiresAt = dbTimestamp d (now e + milliseconds 15 Minutes)\<rparr>],
               sessions := sessions db @
                 [\<lparr>s_id = randomSessionId e, s_expiresAt = now e + milliseconds 30 Days,
                   s_userId = randomUserId e\<rparr>]\<rparr>)
         \<and> fst (createEmailVerificationCode d e (randomUserId e) email
                  (db\<lparr>users := users db @
                     [\<lparr>u_id = randomUserId e, u_email = email, u_emailVerified = False,
                       u_passwordHash = passwordHash,
                       u_createdAt = dbTimestamp d (now e)\<rparr>]\<rparr>)) =
             Resolved (Failure email_send_error)"
proof -
  have unique: "randomUserId e \<notin>
      c_userId ` set (filter (\<lambda>c. c_userId c \<noteq> randomUserId e) (emailVerificationCodes db))"
    by auto
  show ?thesis
    using assms unique
    by (simp add: signup_def createEmailVerificationCode_def insert_user_def
        insert_emailVerificationCode_def lucia_createSession_def insert_session_def
        createDate_def Let_def)
qed

text \<open>
  The theorem at a concrete call: a fresh email on \<open>db0\<close> with the failing email service.
\<close>

theorem signup_discards_email_failure_witness:
  "find (\<lambda>u. u_email u = ''b@test.com'') (users db0) = None
   \<and> password_hash deps_fail (randomSalt env0) ''pw'' = Resolved ''salt$pw''
   \<and> sendConfirmEmail deps_fail ''b@test.com'' (randomCode env0) = Failure email_send_error
   \<and> randomUserId env0 \<notin> u_id ` set (users db0)
   \<and> randomSessionId env0 \<notin> s_id ` set (sessions db0)
   \<and> signup deps_fail env0 ''b@test.com'' ''pw'' db0 =
       (Resolved (Success ''s2''),
        \<lparr>users = [user0, \<lparr>u_id = ''u2'', u_email = ''b@test.com'', u_emailVerified = False,
                           u_passwordHash = ''salt$pw'', u_createdAt = 1000000\<rparr>],
         sessions = [session0, \<lparr>s_id = ''s2'', s_expiresAt = 2593000000, s_userId = ''u2''\<rparr>],
         emailVerificationCodes =
           [code0, \<lparr>c_id = 2, c_code = ''12345678'', c_userId = ''u2'', c_email = ''b@test.com'',
                    c_expiresAt = 1900000\<rparr>],
         passwordResetTokens = []\<rparr>)"
proof -
  have a: "find (\<lambda>u. u_email u = ''b@test.com'') (users db0) = None"
    by (simp add: db0_def user0_def)
  have h: "password_hash deps_fail (randomSalt env0) ''pw'' = Resolved ''salt$pw''"
    by (simp add: deps_fail_def deps0_def env0_def)
  have b: "sendConfirmEmail deps_fail ''b@test.com'' (randomCode env0) = Failure email_send_error"
    by (simp add: deps_fail_def)
  have c: "randomUserId env0 \<notin> u_id ` set (users db0)"
    by (simp add: env0_def db0_def user0_def)
  have f: "randomSessionId env0 \<notin> s_id ` set (sessions db0)"
    by (simp add: env0_def db0_def session0_def)
  have r: "signup deps_fail env0 ''b@test.com'' ''pw'' db0 =
       (Resolved (Success ''s2''),
        \<lparr>users = [user0, \<lparr>u_id = ''u2'', u_email = ''b@test.com'', u_emailVerified = False,
                           u_passwordHash = ''salt$pw'', u_createdAt = 1000000\<rparr>],
         sessions = [session0, \<lparr>s_id = ''s2'', s_expiresAt = 2593000000, s_userId = ''u2''\<rparr>],
         emailVerificationCodes =
           [code0, \<lparr>c_id = 2, c_code = ''12345678'', c_userId = ''u2'', c_email = ''b@test.com'',
                    c_expiresAt = 1900000\<rparr>],
         passwordResetTokens = []\<rparr>)"
    using signup_discards_email_failure [OF a h b c f, THEN conjunct1]
    by (simp add: env0_def db0_def deps_fail_def deps0_def code0_def next_code_id_def)
  show ?thesis using a h b c f r by simp
qed

text \<open>
  Claim C1 as the specification words it (signup surfaces \<open>email_send_error\<close>) fails on
  that call: the email is not registered, sending fails, and signup resolves to success.
\<close>

theorem signup_email_failure_counterexample:
  "find (\<lambda>u. u_email u = ''b@test.com'') (users db0) = None
   \<and> sendConfirmEmail deps_fail ''b@test.com'' (randomCode env0) = Failure email_send_error
   \<and> fst (signup deps_fail env0 ''b@test.com'' ''pw'' db0) = Resolved (Success ''s2'')
   \<and> fst (signup deps_fail env0 ''b@test.com'' ''pw'' db0) \<noteq> Resolved (Failure email_send_error)"
  by (auto simp: signup_def createEmailVerificationCode_def insert_user_def
      insert_emailVerificationCode_def lucia_createSession_def insert_session_def Let_def
      deps_fail_def deps0_def env0_def db0_def user0_def code0_def session0_def)

subsection \<open>The stored verification code is consumed on a match\<close>

text \<open>
  Claim C2, as the code has it. When a verification code row is stored for the user,
  verifyEmailCode deletes that row exactly when the supplied code equals the stored one
  (before it looks at the expiry or the email, so whatever the outcome then is); when the
  supplied code differs, the call resolves to \<open>invalid_code\<close> and leaves the database
  as it was.
\<close>

theorem verifyEmailCode_consumes_on_match:
  assumes "find (\<lambda>c. c_userId c = user_id user) (emailVerificationCodes db) = Some row"
  shows "(code = c_code row \<longrightarrow>
            emailVerificationCodes (snd (verifyEmailCode e user code db)) =
              filter (\<lambda>c. c_id c \<noteq> c_id row) (emailVerificationCodes db)
            \<and> row \<notin> set (emailVerificationCodes (snd (verifyEmailCode e user code db))))
         \<and> (code \<noteq> c_code row \<longrightarrow>
            verifyEmailCode e user code db = (Resolved (Failure invalid_code), db))"
  using assms
  by (simp add: verifyEmailCode_def checkEmailCode_def lucia_invalidateUserSessions_def
      createSession_frame Let_def)

text \<open>
  The theorem at concrete calls: the matching but expired code empties the table, the
  wrong code changes nothing.
\<close>

theorem verifyEmailCode_consumes_on_match_witness:
  "find (\<lambda>c. c_userId c = user_id (getUserAttributes user0)) (emailVerificationCodes db0) = Some code0
   \<and> emailVerificationCodes (snd (verifyEmailCode (env0\<lparr>now := 2000000\<rparr>) (getUserAttributes user0)
        ''11112222'' db0)) = []
   \<and> verifyEmailCode env0 (getUserAttributes user0) ''wrong'' db0 =
       (Resolved (Failure invalid_code), db0)"
proof -
  have a: "find (\<lambda>c. c_userId c = user_id (getUserAttributes user0)) (emailVerificationCodes db0) = Some code0"
    by (simp add: db0_def code0_def user0_def getUserAttributes_def)
  have m: "''11112222'' = c_code code0" and n: "''wrong'' \<noteq> c_code code0"
    by (simp_all add: code0_def)
  have r1: "emailVerificationCodes (snd (verifyEmailCode (env0\<lparr>now := 2000000\<rparr>)
      (getUserAttributes user0) ''11112222'' db0)) = []"
    using verifyEmailCode_consumes_on_match [OF a, where code = "''11112222''"
        and e = "env0\<lparr>now := 2000000\<rparr>"] m
    by (simp add: db0_def)
  have r2: "verifyEmailCode env0 (getUserAttributes user0) ''wrong'' db0 =
       (Resolved (Failure invalid_code), db0)"
    using verifyEmailCode_consumes_on_match [OF a, where code = "''wrong''" and e = env0] n
    by blast
  show ?thesis using a r1 r2 by simp
qed

text \<open>
  Claim C2 as the specification words it (the row is gone after every attempt) fails for
  a wrong code: the stored row is still in the table after the call.
\<close>

theorem verifyEmailCode_mismatch_counterexample:
  "find (\<lambda>c. c_userId c = user_id (getUserAttributes user0)) (emailVerificationCodes db0) = Some code0
   \<and> ''wrong'' \<noteq> c_code code0
   \<and> fst (verifyEmailCode env0 (getUserAttributes user0) ''wrong'' db0) = Resolved (Failure invalid_code)
   \<and> code0 \<in> set (emailVerificationCodes (snd (verifyEmailCode env0 (getUserAttributes user0) ''wrong'' db0)))"
  by (simp add: verifyEmailCode_def checkEmailCode_def db0_def code0_def user0_def
      getUserAttributes_def)

subsection \<open>Verifying the email with the right code\<close>

text \<open>
  Claim C3. When a code row is stored for the user, the supplied code equals the stored
  one, its expiry is not in the past, its email is the user's email, and the generated
  session identifier is not in use, verifyEmailCode resolves to success with that new
  identifier. Afterwards the rows of that user have \<open>emailVerified\<close> true, the code row
  is deleted, and the sessions of the user are exactly the one session just created:
  every session the user had before is gone.
\<close>

theorem verifyEmailCode_valid:
  assumes "find (\<lambda>c. c_userId c = user_id user) (emailVerificationCodes db) = Some row"
    and "code = c_code row"
    and "\<not> c_expiresAt row < now e"
    and "c_email row = user_email user"
    and "randomSessionId e \<notin> s_id ` set (sessions db)"
  shows "verifyEmailCode e user code db =
           (Resolved (Success (randomSessionId e)),
            db\<lparr>users := map (\<lambda>u. if u_id u = user_id user then u\<lparr>u_emailVerified := True\<rparr> else u)
                            (users db),
               sessions := filter (\<lambda>s. s_userId s \<noteq> user_id user) (sessions db) @
                 [\<lparr>s_id = randomSessionId e, s_expiresAt = now e + milliseconds 30 Days,
                   s_userId = user_id user\<rparr>],
               emailVerificationCodes :=
                 filter (\<lambda>c. c_id c \<noteq> c_id row) (emailVerificationCodes db)\<rparr>)
         \<and> filter (\<lambda>s. s_userId s = user_id user) (sessions (snd (verifyEmailCode e user code db))) =
             [\<lparr>s_id = randomSessionId e, s_expiresAt = now e + milliseconds 30 Days,
               s_userId = user_id user\<rparr>]"
proof -
  let ?db3 = "db\<lparr>emailVerificationCodes :=
                    filter (\<lambda>c. c_id c \<noteq> c_id row) (emailVerificationCodes db),
                  users := map (\<lambda>u. if u_id u = user_id user then u\<lparr>u_emailVerified := True\<rparr> else u)
                            (users db),
                  sessions := filter (\<lambda>s. s_userId s \<noteq> user_id user) (sessions db)\<rparr>"
  have fresh: "randomSessionId e \<notin> s_id ` set (sessions ?db3)"
    using assms(5) by auto
  have run: "verifyEmailCode e user code db =
      await (lucia_createSession e (user_id user) ?db3)
        (\<lambda>session db4. (Resolved (Success (s_id session)), db4))"
    using assms(1-4)
    by (simp add: verifyEmailCode_def checkEmailCode_def lucia_invalidateUserSessions_def Let_def)
  have eq: "verifyEmailCode e user code db =
           (Resolved (Success (randomSessionId e)),
            db\<lparr>users := map (\<lambda>u. if u_id u = user_id user then u\<lparr>u_emailVerified := True\<rparr> else u)
                            (users db),
               sessions := filter (\<lambda>s. s_userId s \<noteq> user_id user) (sessions db) @
                 [\<lparr>s_id = randomSessionId e, s_expiresAt = now e + milliseconds 30 Days,
                   s_userId = user_id user\<rparr>],
               emailVerificationCodes :=
                 filter (\<lambda>c. c_id c \<noteq> c_id row) (emailVerificationCodes db)\<rparr>)"
    unfolding run lucia_createSession_fresh [OF fresh] by simp
  show ?thesis
    unfolding eq by simp
qed

text \<open>
  The theorem at a concrete call on \<open>db0\<close>, where the user has the session \<open>s1\<close> before
  and only \<open>s2\<close> after.
\<close>

theorem verifyEmailCode_valid_witness:
  "find (\<lambda>c. c_userId c = user_id (getUserAttributes user0)) (emailVerificationCodes db0) = Some code0
   \<and> \<not> c_expiresAt code0 < now env0
   \<and> c_email code0 = user_email (getUserAttributes user0)
   \<and> randomSessionId env0 \<notin> s_id ` set (sessions db0)
   \<and> verifyEmailCode env0 (getUserAttributes user0) (c_code code0) db0 =
       (Resolved (Success ''s2''),
        \<lparr>users = [user0\<lparr>u_emailVerified := True\<rparr>],
         sessions = [\<lparr>s_id = ''s2'', s_expiresAt = 2593000000, s_userId = ''u1''\<rparr>],
         emailVerificationCodes = [], passwordResetTokens = []\<rparr>)"
proof -
  have a: "find (\<lambda>c. c_userId c = user_id (getUserAttributes user0)) (emailVerificationCodes db0) = Some code0"
    by (simp add: db0_def code0_def user0_def getUserAttributes_def)
  have b: "\<not> c_expiresAt code0 < now env0"
    by (simp add: code0_def env0_def)
  have c: "c_email code0 = user_email (getUserAttributes user0)"
    by (simp add: code0_def user0_def getUserAttributes_def)
  have f: "randomSessionId env0 \<notin> s_id ` set (sessions db0)"
    by (simp add: env0_def db0_def session0_def)
  have r: "verifyEmailCode env0 (getUserAttributes user0) (c_code code0) db0 =
       (Resolved (Success ''s2''),
        \<lparr>users = [user0\<lparr>u_emailVerified := True\<rparr>],
         sessions = [\<lparr>s_id = ''s2'', s_expiresAt = 2593000000, s_userId = ''u1''\<rparr>],
         emailVerificationCodes = [], passwordResetTokens = []\<rparr>)"
    using verifyEmailCode_valid [OF a refl b c f, THEN conjunct1]
    by (simp add: env0_def db0_def user0_def code0_def session0_def getUserAttributes_def)
  show ?thesis using a b c f r by simp
qed

subsection \<open>Resetting the password\<close>

text \<open>
  Claim C4, as the code has it. resetPassword looks the token up by the SHA-256 digest of the supplied
  token. When no stored row has that digest it resolves to \<open>invalid_code\<close>; when the
  row found has its expiry in the past it resolves to \<open>code_expired\<close>; in both cases
  the database is unchanged. Otherwise, when the password hashing accepts the new
  password and the generated session identifier is not in use, it deletes every session
  of the token's user, replaces the password hash of that user by the hash of the new
  password, creates a session for that user and resolves to success with the new session
  identifier.
\<close>

theorem resetPassword_cases:
  "(find (\<lambda>t. t_tokenHash t = sha256_hex d token) (passwordResetTokens db) = None \<longrightarrow>
      resetPassword d e newPassword token db = (Resolved (Failure invalid_code), db))
   \<and> (\<forall>row. find (\<lambda>t. t_tokenHash t = sha256_hex d token) (passwordResetTokens db) = Some row
         \<and> t_expiresAt row < now e \<longrightarrow>
      resetPassword d e newPassword token db = (Resolved (Failure code_expired), db))
   \<and> (\<forall>row passwordHash.
         find (\<lambda>t. t_tokenHash t = sha256_hex d token) (passwordResetTokens db) = Some row
         \<and> \<not> t_expiresAt row < now e
         \<and> password_hash d (randomSalt e) newPassword = Resolved passwordHash
         \<and> randomSessionId e \<notin> s_id ` set (sessions db) \<longrightarrow>
      resetPassword d e newPassword token db =
        (Resolved (Success (randomSessionId e)),
         db\<lparr>users := map (\<lambda>u. if u_id u = t_userId row
                                then u\<lparr>u_passwordHash := passwordHash\<rparr>
                                else u) (users db),
            sessions := filter (\<lambda>s. s_userId s \<noteq> t_userId row) (sessions db) @
              [\<lparr>s_id = randomSessionId e, s_expiresAt = now e + milliseconds 30 Days,
                s_userId = t_userId row\<rparr>]\<rparr>))"
proof -
  have fresh: "randomSessionId e \<notin> s_id ` set (sessions db) \<Longrightarrow>
      randomSessionId e \<notin> s_id ` set (sessions
        (db\<lparr>sessions := filter (\<lambda>s. s_userId s \<noteq> uid) (sessions db), users := us\<rparr>))" for uid us
    by auto
  show ?thesis
    by (simp add: resetPassword_def lucia_invalidateUserSessions_def Let_def
        lucia_createSession_fresh [OF fresh])
qed

text \<open>
  The three cases at concrete calls on \<open>db1\<close>.
\<close>

theorem resetPassword_cases_witness:
  "find (\<lambda>t. t_tokenHash t = sha256_hex deps0 ''fake'') (passwordResetTokens db1) = None
   \<and> resetPassword deps0 env0 ''newPassword'' ''fake'' db1 = (Resolved (Failure invalid_code), db1)
   \<and> find (\<lambda>t. t_tokenHash t = sha256_hex deps0 ''tok'') (passwordResetTokens db1) = Some token0
   \<and> t_expiresAt token0 < now (env0\<lparr>now := 9000000\<rparr>)
   \<and> resetPassword deps0 (env0\<lparr>now := 9000000\<rparr>) ''newPassword'' ''tok'' db1 =
       (Resolved (Failure code_expired), db1)
   \<and> \<not> t_expiresAt token0 < now env0
   \<and> password_hash deps0 (randomSalt env0) ''newPassword'' = Resolved ''salt$newPassword''
   \<and> randomSessionId env0 \<notin> s_id ` set (sessions db1)
   \<and> resetPassword deps0 env0 ''newPassword'' ''tok'' db1 =
       (Resolved (Success ''s2''),
        db1\<lparr>users := [user0\<lparr>u_passwordHash := ''salt$newPassword''\<rparr>],
            sessions := [\<lparr>s_id = ''s2'', s_expiresAt = 2593000000, s_userId = ''u1''\<rparr>]\<rparr>)"
proof -
  have a: "find (\<lambda>t. t_tokenHash t = sha256_hex deps0 ''fake'') (passwordResetTokens db1) = None"
    by (simp add: db1_def token0_def deps0_def)
  have b: "find (\<lambda>t. t_tokenHash t = sha256_hex deps0 ''tok'') (passwordResetTokens db1) = Some token0"
    by (simp add: db1_def token0_def deps0_def)
  have c: "t_expiresAt token0 < now (env0\<lparr>now := 9000000\<rparr>)"
    by (simp add: token0_def)
  have d: "\<not> t_expiresAt token0 < now env0"
    by (simp add: token0_def env0_def)
  have h: "password_hash deps0 (randomSalt env0) ''newPassword'' = Resolved ''salt$newPassword''"
    by (simp add: deps0_def env0_def)
  have f: "randomSessionId env0 \<notin> s_id ` set (sessions db1)"
    by (simp add: env0_def db1_def session0_def)
  have r1: "resetPassword deps0 env0 ''newPassword'' ''fake'' db1 = (Resolved (Failure invalid_code), db1)"
    using resetPassword_cases [where d = deps0 and e = env0 and db = db1 and token = "''fake''"
        and newPassword = "''newPassword''"] a by blast
  have r2: "resetPassword deps0 (env0\<lparr>now := 9000000\<rparr>) ''newPassword'' ''tok'' db1 =
       (Resolved (Failure code_expired), db1)"
    using resetPassword_cases [where d = deps0 and e = "env0\<lparr>now := 9000000\<rparr>" and db = db1
        and token = "''tok''" and newPassword = "''newPassword''"] b c by blast
  have r3: "resetPassword deps0 env0 ''newPassword'' ''tok'' db1 =
        (Resolved (Success (randomSessionId env0)),
         db1\<lparr>users := map (\<lambda>u. if u_id u = t_userId token0
                                then u\<lparr>u_passwordHash := ''salt$newPassword''\<rparr>
                                else u) (users db1),
            sessions := filter (\<lambda>s. s_userId s \<noteq> t_userId token0) (sessions db1) @
              [\<lparr>s_id = randomSessionId env0, s_expiresAt = now env0 + milliseconds 30 Days,
                s_userId = t_userId token0\<rparr>]\<rparr>)"
    using resetPassword_cases [where d = deps0 and e = env0 and db = db1 and token = "''tok''"
        and newPassword = "''newPassword''"] b d h f by blast
  have r3': "resetPassword deps0 env0 ''newPassword'' ''tok'' db1 =
       (Resolved (Success ''s2''),
        db1\<lparr>users := [user0\<lparr>u_passwordHash := ''salt$newPassword''\<rparr>],
            sessions := [\<lparr>s_id = ''s2'', s_expiresAt = 2593000000, s_userId = ''u1''\<rparr>]\<rparr>)"
    unfolding r3 by (simp add: env0_def db1_def user0_def token0_def session0_def deps0_def)
  show ?thesis using a b c d h f r1 r2 r3' by simp
qed

text \<open>
  Claim C4 as the specification words it (every call with a known, unexpired token
  replaces the hash and returns success) fails for a new password that the password
  hashing rejects: with the empty password the token of \<open>db1\<close> is found and not
  expired, the sessions of its user are deleted, and then the call rejects; no password
  hash is replaced and no session is created.
\<close>

theorem resetPassword_rejected_hash_counterexample:
  "find (\<lambda>t. t_tokenHash t = sha256_hex deps0 ''tok'') (passwordResetTokens db1) = Some token0
   \<and> \<not> t_expiresAt token0 < now env0
   \<and> randomSessionId env0 \<notin> s_id ` set (sessions db1)
   \<and> password_hash deps0 (randomSalt env0) [] = Rejected
   \<and> resetPassword deps0 env0 [] ''tok'' db1 = (Rejected, db1\<lparr>sessions := []\<rparr>)
   \<and> fst (resetPassword deps0 env0 [] ''tok'' db1) \<noteq> Resolved (Success (randomSessionId env0))"
  by (simp add: resetPassword_def lucia_invalidateUserSessions_def Let_def deps0_def env0_def
      db1_def token0_def session0_def)

subsection \<open>Validating a session\<close>

text \<open>
  Claim C5. validateSession resolves to \<open>invalid_session\<close> exactly when no session has
  the identifier or the user of that session does not exist. When session and user
  exist and less than 15 days remain until the expiry, the result carries a fresh
  session identifier: a generated identifier (not in use before, so different from the
  one validated) whose session belongs to the same user and expires 30 days from now.
  When more than 15 days remain, the result carries no fresh identifier and the
  database is unchanged. What the session library does here is taken from the
  specification's description of it.
\<close>

theorem validateSession_cases:
  "(fst (validateSession e sessionId db) = Resolved (Failure invalid_session) \<longleftrightarrow>
      (find (\<lambda>s. s_id s = sessionId) (sessions db) = None
       \<or> (\<exists>s. find (\<lambda>s. s_id s = sessionId) (sessions db) = Some s
              \<and> find (\<lambda>u. u_id u = s_userId s) (users db) = None)))
   \<and> (\<forall>s u. find (\<lambda>s. s_id s = sessionId) (sessions db) = Some s
         \<and> find (\<lambda>u. u_id u = s_userId s) (users db) = Some u
         \<and> s_expiresAt s - now e < milliseconds 15 Days
         \<and> randomSessionId e \<notin> s_id ` set (sessions db) \<longrightarrow>
       fst (validateSession e sessionId db) =
         Resolved (Success \<lparr>v_user = getUserAttributes u,
                            v_freshSessionId = Some (randomSessionId e)\<rparr>)
       \<and> randomSessionId e \<noteq> sessionId
       \<and> sessions (snd (validateSession e sessionId db)) =
           filter (\<lambda>s. s_id s \<noteq> sessionId) (sessions db) @
           [\<lparr>s_id = randomSessionId e, s_expiresAt = now e + milliseconds 30 Days,
             s_userId = s_userId s\<rparr>])
   \<and> (\<forall>s u. find (\<lambda>s. s_id s = sessionId) (sessions db) = Some s
         \<and> find (\<lambda>u. u_id u = s_userId s) (users db) = Some u
         \<and> milliseconds 15 Days < s_expiresAt s - now e \<longrightarrow>
       validateSession e sessionId db =
         (Resolved (Success \<lparr>v_user = getUserAttributes u, v_freshSessionId = None\<rparr>), db))"
proof (intro conjI allI impI)
  show "fst (validateSession e sessionId db) = Resolved (Failure invalid_session) \<longleftrightarrow>
      (find (\<lambda>s. s_id s = sessionId) (sessions db) = None
       \<or> (\<exists>s. find (\<lambda>s. s_id s = sessionId) (sessions db) = Some s
              \<and> find (\<lambda>u. u_id u = s_userId s) (users db) = None))"
    by (auto simp: validateSession_def lucia_validateSession_def lucia_invalidateSession_def
        lucia_createSession_def insert_session_def Let_def split: option.splits)
next
  fix s u
  assume h: "find (\<lambda>s. s_id s = sessionId) (sessions db) = Some s
         \<and> find (\<lambda>u. u_id u = s_userId s) (users db) = Some u
         \<and> s_expiresAt s - now e < milliseconds 15 Days
         \<and> randomSessionId e \<notin> s_id ` set (sessions db)"
  then have fresh: "randomSessionId e \<notin> s_id ` set (sessions
      (db\<lparr>sessions := filter (\<lambda>s. s_id s \<noteq> sessionId) (sessions db)\<rparr>))"
    by auto
  from h have "s_id s = sessionId \<and> s \<in> set (sessions db)"
    using find_SomeD [of "\<lambda>s. s_id s = sessionId" "sessions db" s] by simp
  with h show "randomSessionId e \<noteq> sessionId" by auto
  from h show "fst (validateSession e sessionId db) =
         Resolved (Success \<lparr>v_user = getUserAttributes u,
                            v_freshSessionId = Some (randomSessionId e)\<rparr>)"
    by (simp add: validateSession_def lucia_validateSession_def lucia_invalidateSession_def
        lucia_createSession_fresh [OF fresh])
  from h show "sessions (snd (validateSession e sessionId db)) =
           filter (\<lambda>s. s_id s \<noteq> sessionId) (sessions db) @
           [\<lparr>s_id = randomSessionId e, s_expiresAt = now e + milliseconds 30 Days,
             s_userId = s_userId s\<rparr>]"
    by (simp add: validateSession_def lucia_validateSession_def lucia_invalidateSession_def
        lucia_createSession_fresh [OF fresh])
next
  fix s u
  assume "find (\<lambda>s. s_id s = sessionId) (sessions db) = Some s
         \<and> find (\<lambda>u. u_id u = s_userId s) (users db) = Some u
         \<and> milliseconds 15 Days < s_expiresAt s - now e"
  then show "validateSession e sessionId db =
         (Resolved (Success \<lparr>v_user = getUserAttributes u, v_freshSessionId = None\<rparr>), db)"
    by (simp add: validateSession_def lucia_validateSession_def)
qed

text \<open>
  The three cases at concrete calls on \<open>db0\<close>.
\<close>

theorem validateSession_cases_witness:
  "find (\<lambda>s. s_id s = ''nope'') (sessions db0) = None
   \<and> fst (validateSession env0 ''nope'' db0) = Resolved (Failure invalid_session)
   \<and> find (\<lambda>s. s_id s = ''s1'') (sessions db0) = Some session0
   \<and> find (\<lambda>u. u_id u = s_userId session0) (users db0) = Some user0
   \<and> s_expiresAt session0 - now (env0\<lparr>now := 2000000000\<rparr>) < milliseconds 15 Days
   \<and> randomSessionId (env0\<lparr>now := 2000000000\<rparr>) \<notin> s_id ` set (sessions db0)
   \<and> fst (validateSession (env0\<lparr>now := 2000000000\<rparr>) ''s1'' db0) =
       Resolved (Success \<lparr>v_user = getUserAttributes user0, v_freshSessionId = Some ''s2''\<rparr>)
   \<and> sessions (snd (validateSession (env0\<lparr>now := 2000000000\<rparr>) ''s1'' db0)) =
       [\<lparr>s_id = ''s2'', s_expiresAt = 4592000000, s_userId = ''u1''\<rparr>]
   \<and> milliseconds 15 Days < s_expiresAt session0 - now env0
   \<and> validateSession env0 ''s1'' db0 =
       (Resolved (Success \<lparr>v_user = getUserAttributes user0, v_freshSessionId = None\<rparr>), db0)"
proof -
  have a: "find (\<lambda>s. s_id s = ''nope'') (sessions db0) = None"
    by (simp add: db0_def session0_def)
  have b: "find (\<lambda>s. s_id s = ''s1'') (sessions db0) = Some session0"
    by (simp add: db0_def session0_def)
  have c: "find (\<lambda>u. u_id u = s_userId session0) (users db0) = Some user0"
    by (simp add: db0_def session0_def user0_def)
  have near: "s_expiresAt session0 - now (env0\<lparr>now := 2000000000\<rparr>) < milliseconds 15 Days"
    by (simp add: session0_def)
  have far: "milliseconds 15 Days < s_expiresAt session0 - now env0"
    by (simp add: session0_def env0_def)
  have f: "randomSessionId (env0\<lparr>now := 2000000000\<rparr>) \<notin> s_id ` set (sessions db0)"
    by (simp add: env0_def db0_def session0_def)
  have r1: "fst (validateSession env0 ''nope'' db0) = Resolved (Failure invalid_session)"
    using validateSession_cases [where e = env0 and sessionId = "''nope''" and db = db0] a
    by blast
  have r2: "fst (validateSession (env0\<lparr>now := 2000000000\<rparr>) ''s1'' db0) =
         Resolved (Success \<lparr>v_user = getUserAttributes user0,
                            v_freshSessionId = Some (randomSessionId (env0\<lparr>now := 2000000000\<rparr>))\<rparr>)
       \<and> sessions (snd (validateSession (env0\<lparr>now := 2000000000\<rparr>) ''s1'' db0)) =
           filter (\<lambda>s. s_id s \<noteq> ''s1'') (sessions db0) @
           [\<lparr>s_id = randomSessionId (env0\<lparr>now := 2000000000\<rparr>),
             s_expiresAt = now (env0\<lparr>now := 2000000000\<rparr>) + milliseconds 30 Days,
             s_userId = s_userId session0\<rparr>]"
    using validateSession_cases [where e = "env0\<lparr>now := 2000000000\<rparr>" and sessionId = "''s1''"
        and db = db0] b c near f
    by blast
  have r3: "validateSession env0 ''s1'' db0 =
       (Resolved (Success \<lparr>v_user = getUserAttributes user0, v_freshSessionId = None\<rparr>), db0)"
    using validateSession_cases [where e = env0 and sessionId = "''s1''" and db = db0] b c far
    by blast
  have r2': "fst (validateSession (env0\<lparr>now := 2000000000\<rparr>) ''s1'' db0) =
       Resolved (Success \<lparr>v_user = getUserAttributes user0, v_freshSessionId = Some ''s2''\<rparr>)
     \<and> sessions (snd (validateSession (env0\<lparr>now := 2000000000\<rparr>) ''s1'' db0)) =
       [\<lparr>s_id = ''s2'', s_expiresAt = 4592000000, s_userId = ''u1''\<rparr>]"
    using r2 by (simp add: env0_def db0_def session0_def)
  show ?thesis using a b c near far f r1 r2' r3 by simp
qed

subsection \<open>Logging in\<close>

text \<open>
  Claim C6. login resolves to \<open>user_not_found\<close> when no user has the email, and to
  \<open>invalid_credentials\<close> when the user found has a password hash against which the
  password does not verify; the database is unchanged in both cases. When the password
  verifies and the generated session identifier is not in use, it creates a session for
  that user and resolves to success with the new session identifier.
\<close>

theorem login_cases:
  "(find (\<lambda>u. u_email u = email) (users db) = None \<longrightarrow>
      login d e email password db = (Resolved (Failure user_not_found), db))
   \<and> (\<forall>user. find (\<lambda>u. u_email u = email) (users db) = Some user
         \<and> \<not> password_verify d password (u_passwordHash user) \<longrightarrow>
      login d e email password db = (Resolved (Failure invalid_credentials), db))
   \<and> (\<forall>user. find (\<lambda>u. u_email u = email) (users db) = Some user
         \<and> password_verify d password (u_passwordHash user)
         \<and> randomSessionId e \<notin> s_id ` set (sessions db) \<longrightarrow>
      login d e email password db =
        (Resolved (Success (randomSessionId e)),
         db\<lparr>sessions := sessions db @
           [\<lparr>s_id = randomSessionId e, s_expiresAt = now e + milliseconds 30 Days,
             s_userId = u_id user\<rparr>]\<rparr>))"
  by (simp add: login_def lucia_createSession_fresh)

text \<open>
  The three cases at concrete calls on \<open>db0\<close>.
\<close>

theorem login_cases_witness:
  "find (\<lambda>u. u_email u = ''nobody@test.com'') (users db0) = None
   \<and> login deps0 env0 ''nobody@test.com'' ''pw'' db0 = (Resolved (Failure user_not_found), db0)
   \<and> find (\<lambda>u. u_email u = ''a@test.com'') (users db0) = Some user0
   \<and> \<not> password_verify deps0 ''wrong'' (u_passwordHash user0)
   \<and> login deps0 env0 ''a@test.com'' ''wrong'' db0 = (Resolved (Failure invalid_credentials), db0)
   \<and> password_verify deps0 ''pw'' (u_passwordHash user0)
   \<and> randomSessionId env0 \<notin> s_id ` set (sessions db0)
   \<and> login deps0 env0 ''a@test.com'' ''pw'' db0 =
       (Resolved (Success ''s2''),
        db0\<lparr>sessions := [session0, \<lparr>s_id = ''s2'', s_expiresAt = 2593000000, s_userId = ''u1''\<rparr>]\<rparr>)"
proof -
  have a: "find (\<lambda>u. u_email u = ''nobody@test.com'') (users db0) = None"
    by (simp add: db0_def user0_def)
  have b: "find (\<lambda>u. u_email u = ''a@test.com'') (users db0) = Some user0"
    by (simp add: db0_def user0_def)
  have c: "\<not> password_verify deps0 ''wrong'' (u_passwordHash user0)"
    by (simp add: deps0_def user0_def)
  have d: "password_verify deps0 ''pw'' (u_passwordHash user0)"
    by (simp add: deps0_def user0_def)
  have f: "randomSessionId env0 \<notin> s_id ` set (sessions db0)"
    by (simp add: env0_def db0_def session0_def)
  have r1: "login deps0 env0 ''nobody@test.com'' ''pw'' db0 = (Resolved (Failure user_not_found), db0)"
    using login_cases [where d = deps0 and e = env0 and db = db0 and password = "''pw''"
        and email = "''nobody@test.com''"] a by blast
  have r2: "login deps0 env0 ''a@test.com'' ''wrong'' db0 = (Resolved (Failure invalid_credentials), db0)"
    using login_cases [where d = deps0 and e = env0 and db = db0 and password = "''wrong''"
        and email = "''a@test.com''"] b c by blast
  have r3: "login deps0 env0 ''a@test.com'' ''pw'' db0 =
      (Resolved (Success (randomSessionId env0)),
       db0\<lparr>sessions := sessions db0 @
         [\<lparr>s_id = randomSessionId env0, s_expiresAt = now env0 + milliseconds 30 Days,
           s_userId = u_id user0\<rparr>]\<rparr>)"
    using login_cases [where d = deps0 and e = env0 and db = db0 and password = "''pw''"
        and email = "''a@test.com''"] b d f by blast
  have r3': "login deps0 env0 ''a@test.com'' ''pw'' db0 =
       (Resolved (Success ''s2''),
        db0\<lparr>sessions := [session0, \<lparr>s_id = ''s2'', s_expiresAt = 2593000000, s_userId = ''u1''\<rparr>]\<rparr>)"
    unfolding r3 by (simp add: env0_def user0_def db0_def)
  show ?thesis using a b c d f r1 r2 r3' by simp
qed

subsection \<open>A matching code that is expired or was issued for another email\<close>

text \<open>
  Claim C7. When a code row is stored for the user and the supplied code equals the
  stored one, verifyEmailCode resolves to \<open>expired_code\<close> (not \<open>invalid_code\<close>) if the
  expiry of the row is in the past or the email of the row differs from the user's
  email.
\<close>

theorem verifyEmailCode_expired_code:
  assumes "find (\<lambda>c. c_userId c = user_id user) (emailVerificationCodes db) = Some row"
    and "code = c_code row"
    and "c_expiresAt row < now e \<or> c_email row \<noteq> user_email user"
  shows "fst (verifyEmailCode e user code db) = Resolved (Failure expired_code)"
  using assms by (auto simp: verifyEmailCode_def checkEmailCode_def Let_def)

text \<open>
  Both disjuncts at concrete calls: the code of \<open>db0\<close> after its expiry, and the same
  code for a user whose email has changed.
\<close>

theorem verifyEmailCode_expired_code_witness:
  "find (\<lambda>c. c_userId c = user_id (getUserAttributes user0)) (emailVerificationCodes db0) = Some code0
   \<and> c_expiresAt code0 < now (env0\<lparr>now := 2000000\<rparr>)
   \<and> fst (verifyEmailCode (env0\<lparr>now := 2000000\<rparr>) (getUserAttributes user0) (c_code code0) db0) =
       Resolved (Failure expired_code)
   \<and> c_email code0 \<noteq> user_email ((getUserAttributes user0)\<lparr>user_email := ''new@test.com''\<rparr>)
   \<and> fst (verifyEmailCode env0 ((getUserAttributes user0)\<lparr>user_email := ''new@test.com''\<rparr>)
         (c_code code0) db0) = Resolved (Failure expired_code)"
proof -
  have a: "find (\<lambda>c. c_userId c = user_id (getUserAttributes user0)) (emailVerificationCodes db0) = Some code0"
    by (simp add: db0_def code0_def user0_def getUserAttributes_def)
  have a': "find (\<lambda>c. c_userId c = user_id ((getUserAttributes user0)\<lparr>user_email := ''new@test.com''\<rparr>))
      (emailVerificationCodes db0) = Some code0"
    using a by simp
  have b: "c_expiresAt code0 < now (env0\<lparr>now := 2000000\<rparr>)"
    by (simp add: code0_def)
  have c: "c_email code0 \<noteq> user_email ((getUserAttributes user0)\<lparr>user_email := ''new@test.com''\<rparr>)"
    by (simp add: code0_def)
  show ?thesis
    using a b c
      verifyEmailCode_expired_code [OF a refl disjI1 [OF b]]
      verifyEmailCode_expired_code [OF a' refl disjI2 [OF c]]
    by simp
qed

subsection \<open>A used reset token stays in the store\<close>

text \<open>
  Claim C8. A successful resetPassword leaves the table of password-reset tokens as it
  was: the row it matched is still found under the digest of the token, and any later
  resetPassword with the same token on the resulting database does not resolve to
  \<open>invalid_code\<close>.
\<close>

theorem resetPassword_keeps_token:
  assumes "fst (resetPassword d e newPassword token db) = Resolved (Success sessionId)"
  shows "passwordResetTokens (snd (resetPassword d e newPassword token db)) = passwordResetTokens db
         \<and> (\<exists>row. find (\<lambda>t. t_tokenHash t = sha256_hex d token)
                     (passwordResetTokens (snd (resetPassword d e newPassword token db))) = Some row
                 \<and> find (\<lambda>t. t_tokenHash t = sha256_hex d token) (passwordResetTokens db) = Some row
                 \<and> \<not> t_expiresAt row < now e)
         \<and> fst (resetPassword d e' newPassword' token (snd (resetPassword d e newPassword token db)))
             \<noteq> Resolved (Failure invalid_code)"
proof -
  have keep: "passwordResetTokens (snd (resetPassword d e newPassword token db)) = passwordResetTokens db"
    by (simp add: resetPassword_def lucia_invalidateUserSessions_def createSession_frame
        await_pair Let_def split: option.splits promise.splits)
  obtain row where row: "find (\<lambda>t. t_tokenHash t = sha256_hex d token) (passwordResetTokens db) = Some row"
    and live: "\<not> t_expiresAt row < now e"
    using assms by (auto simp: resetPassword_def Let_def split: option.splits if_splits)
  have again: "fst (resetPassword d e' newPassword' token (snd (resetPassword d e newPassword token db)))
             \<noteq> Resolved (Failure invalid_code)"
    using row
    by (auto simp: resetPassword_def [of d e' newPassword' token] keep await_def
        lucia_invalidateUserSessions_def lucia_createSession_def insert_session_def Let_def
        split: prod.splits promise.splits)
  show ?thesis using keep row live again by simp
qed

text \<open>
  The theorem at a concrete call on \<open>db1\<close>, followed by a second reset with the same
  token.
\<close>

theorem resetPassword_keeps_token_witness:
  "fst (resetPassword deps0 env0 ''newPassword'' ''tok'' db1) = Resolved (Success ''s2'')
   \<and> passwordResetTokens (snd (resetPassword deps0 env0 ''newPassword'' ''tok'' db1)) = [token0]
   \<and> fst (resetPassword deps0 (env0\<lparr>randomSessionId := ''s3''\<rparr>) ''other'' ''tok''
           (snd (resetPassword deps0 env0 ''newPassword'' ''tok'' db1)))
       \<noteq> Resolved (Failure invalid_code)"
proof -
  have a: "fst (resetPassword deps0 env0 ''newPassword'' ''tok'' db1) = Resolved (Success ''s2'')"
    by (simp add: resetPassword_def lucia_invalidateUserSessions_def lucia_createSession_def
        insert_session_def Let_def createDate_def deps0_def env0_def db1_def token0_def
        session0_def user0_def)
  show ?thesis
    using a resetPassword_keeps_token [OF a, where e' = "env0\<lparr>randomSessionId := ''s3''\<rparr>"
        and newPassword' = "''other''"]
    by (simp add: db1_def)
qed

subsection \<open>Only the digest of a reset token is stored\<close>

text \<open>
  Claim C9, as the code has it. A resetPasswordRequest that creates a token (the user is
  found and the digest is not the key of another user's row) changes the database in one
  place: the rows of password-reset tokens of that user are replaced by one row holding
  the SHA-256 digest of the token, the user id and the expiry. The digest is computed
  from the token alone; no salt enters it. The token itself is not written: the database
  after resetPasswordRequest depends on the generated token only through its digest, and
  so does everything resetPassword does with the token it is given.
\<close>

theorem resetPasswordRequest_persists_hash_only:
  assumes "find (\<lambda>u. u_email u = email) (users db) = Some user"
    and "sha256_hex d (randomTokenId e) \<notin>
           t_tokenHash ` set (filter (\<lambda>t. t_userId t \<noteq> u_id user) (passwordResetTokens db))"
  shows "snd (resetPasswordRequest d e domain email db) =
           db\<lparr>passwordResetTokens :=
                filter (\<lambda>t. t_userId t \<noteq> u_id user) (passwordResetTokens db) @
                [\<lparr>t_tokenHash = sha256_hex d (randomTokenId e), t_userId = u_id user,
                  t_expiresAt = dbTimestamp d (now e + milliseconds 2 Hours)\<rparr>]\<rparr>
         \<and> (\<forall>e2. now e2 = now e \<and> sha256_hex d (randomTokenId e2) = sha256_hex d (randomTokenId e) \<longrightarrow>
               snd (resetPasswordRequest d e2 domain email db) =
               snd (resetPasswordRequest d e domain email db))
         \<and> (\<forall>e3 newPassword token1 token2 db3. sha256_hex d token1 = sha256_hex d token2 \<longrightarrow>
               resetPassword d e3 newPassword token1 db3 = resetPassword d e3 newPassword token2 db3)"
proof (intro conjI allI impI)
  have unique: "u_id user \<notin>
      t_userId ` set (filter (\<lambda>t. t_userId t \<noteq> u_id user) (passwordResetTokens db))"
    by auto
  show "snd (resetPasswordRequest d e domain email db) =
           db\<lparr>passwordResetTokens :=
                filter (\<lambda>t. t_userId t \<noteq> u_id user) (passwordResetTokens db) @
                [\<lparr>t_tokenHash = sha256_hex d (randomTokenId e), t_userId = u_id user,
                  t_expiresAt = dbTimestamp d (now e + milliseconds 2 Hours)\<rparr>]\<rparr>"
    using assms unique
    by (simp add: resetPasswordRequest_def createPasswordResetToken_def
        insert_passwordResetToken_def createDate_def Let_def split: result.splits)
next
  fix e2 :: env
  assume "now e2 = now e \<and> sha256_hex d (randomTokenId e2) = sha256_hex d (randomTokenId e)"
  then show "snd (resetPasswordRequest d e2 domain email db) =
               snd (resetPasswordRequest d e domain email db)"
    by (simp add: resetPasswordRequest_def createPasswordResetToken_def
        insert_passwordResetToken_def createDate_def Let_def split: result.splits option.splits)
next
  fix e3 :: env and newPassword token1 token2 :: string and db3 :: database
  assume "sha256_hex d token1 = sha256_hex d token2"
  then show "resetPassword d e3 newPassword token1 db3 = resetPassword d e3 newPassword token2 db3"
    by (simp add: resetPassword_def)
qed

text \<open>
  The theorem at a concrete call on \<open>db0\<close>; a different salt drawn by the call leaves
  the resulting database the same.
\<close>

theorem resetPasswordRequest_persists_hash_only_witness:
  "find (\<lambda>u. u_email u = ''a@test.com'') (users db0) = Some user0
   \<and> sha256_hex deps0 (randomTokenId env0) \<notin>
       t_tokenHash ` set (filter (\<lambda>t. t_userId t \<noteq> u_id user0) (passwordResetTokens db0))
   \<and> snd (resetPasswordRequest deps0 env0 ''https://test.com'' ''a@test.com'' db0) =
       db0\<lparr>passwordResetTokens :=
             [\<lparr>t_tokenHash = ''#tok'', t_userId = ''u1'', t_expiresAt = 8200000\<rparr>]\<rparr>
   \<and> snd (resetPasswordRequest deps0 (env0\<lparr>randomSalt := ''other''\<rparr>) ''https://test.com''
            ''a@test.com'' db0) =
       snd (resetPasswordRequest deps0 env0 ''https://test.com'' ''a@test.com'' db0)"
proof -
  have a: "find (\<lambda>u. u_email u = ''a@test.com'') (users db0) = Some user0"
    by (simp add: db0_def user0_def)
  have b: "sha256_hex deps0 (randomTokenId env0) \<notin>
       t_tokenHash ` set (filter (\<lambda>t. t_userId t \<noteq> u_id user0) (passwordResetTokens db0))"
    by (simp add: db0_def)
  note t = resetPasswordRequest_persists_hash_only [OF a b, where domain = "''https://test.com''"]
  have r1: "snd (resetPasswordRequest deps0 env0 ''https://test.com'' ''a@test.com'' db0) =
       db0\<lparr>passwordResetTokens :=
             [\<lparr>t_tokenHash = ''#tok'', t_userId = ''u1'', t_expiresAt = 8200000\<rparr>]\<rparr>"
    using t [THEN conjunct1] by (simp add: db0_def deps0_def env0_def user0_def)
  have r2: "snd (resetPasswordRequest deps0 (env0\<lparr>randomSalt := ''other''\<rparr>) ''https://test.com''
            ''a@test.com'' db0) =
       snd (resetPasswordRequest deps0 env0 ''https://test.com'' ''a@test.com'' db0)"
    using t [THEN conjunct2, THEN conjunct1, THEN spec, of "env0\<lparr>randomSalt := ''other''\<rparr>"]
    by simp
  show ?thesis using a b r1 r2 by simp
qed

text \<open>
  Claim C9 as the specification words it (a salted hash is stored) fails: the same token
  requested under two different salts stores the same value, the plain SHA-256 digest of
  the token.
\<close>

theorem resetPasswordRequest_unsalted_counterexample:
  "fst (resetPasswordRequest deps0 (env0\<lparr>randomSalt := ''saltA''\<rparr>) ''https://test.com'' ''a@test.com'' db0)
     = Resolved (Success ''tok'')
   \<and> map t_tokenHash (passwordResetTokens (snd (resetPasswordRequest deps0
         (env0\<lparr>randomSalt := ''saltA''\<rparr>) ''https://test.com'' ''a@test.com'' db0)))
     = [sha256_hex deps0 ''tok'']
   \<and> map t_tokenHash (passwordResetTokens (snd (resetPasswordRequest deps0
         (env0\<lparr>randomSalt := ''saltB''\<rparr>) ''https://test.com'' ''a@test.com'' db0)))
     = [sha256_hex deps0 ''tok'']"
  by (simp add: resetPasswordRequest_def createPasswordResetToken_def
      insert_passwordResetToken_def Let_def deps0_def env0_def db0_def user0_def)

subsection \<open>Requesting a reset and using the token\<close>

text \<open>
  Claim C10. When resetPasswordRequest resolves to success with a token, a resetPassword
  with that token on the database the request left does not resolve to
  \<open>invalid_code\<close>: the digest it computes is the \<open>tokenHash\<close> of the row the
  request stored, whose expiry is two hours after the request. If moreover that expiry is
  not in the past, the password hashing accepts the new password and the generated
  session identifier is not in use, the reset resolves to success.
\<close>

theorem reset_round_trip:
  assumes "resetPasswordRequest d e domain email db = (Resolved (Success tokenId), db')"
  shows "(\<exists>row. find (\<lambda>t. t_tokenHash t = sha256_hex d tokenId) (passwordResetTokens db') = Some row
              \<and> t_tokenHash row = sha256_hex d tokenId
              \<and> t_expiresAt row = dbTimestamp d (now e + milliseconds 2 Hours))
         \<and> fst (resetPassword d e' newPassword tokenId db') \<noteq> Resolved (Failure invalid_code)
         \<and> (\<not> dbTimestamp d (now e + milliseconds 2 Hours) < now e'
              \<and> (\<exists>passwordHash. password_hash d (randomSalt e') newPassword = Resolved passwordHash)
              \<and> randomSessionId e' \<notin> s_id ` set (sessions db') \<longrightarrow>
            fst (resetPassword d e' newPassword tokenId db') = Resolved (Success (randomSessionId e')))"
proof -
  obtain user where user: "find (\<lambda>u. u_email u = email) (users db) = Some user"
    using assms by (auto simp: resetPasswordRequest_def split: option.splits)
  let ?old = "filter (\<lambda>t. t_userId t \<noteq> u_id user) (passwordResetTokens db)"
  let ?new = "\<lparr>t_tokenHash = sha256_hex d (randomTokenId e), t_userId = u_id user,
               t_expiresAt = dbTimestamp d (now e + milliseconds 2 Hours)\<rparr>"
  have facts: "sha256_hex d (randomTokenId e) \<notin> t_tokenHash ` set ?old
      \<and> tokenId = randomTokenId e
      \<and> db' = db\<lparr>passwordResetTokens := ?old @ [?new]\<rparr>"
    using assms user
    by (auto simp: resetPasswordRequest_def createPasswordResetToken_def
        insert_passwordResetToken_def createDate_def Let_def split: if_splits result.splits)
  then have none: "find (\<lambda>t. t_tokenHash t = sha256_hex d tokenId) ?old = None"
    by (auto simp: find_None_iff intro: rev_image_eqI)
  have found: "find (\<lambda>t. t_tokenHash t = sha256_hex d tokenId) (passwordResetTokens db') = Some ?new"
    using facts none by (simp add: find_snoc)
  have fresh: "randomSessionId e' \<notin> s_id ` set (sessions db') \<Longrightarrow>
      randomSessionId e' \<notin> s_id ` set (sessions
        (db'\<lparr>sessions := filter (\<lambda>s. s_userId s \<noteq> uid) (sessions db'), users := us\<rparr>))" for uid us
    by auto
  have not_invalid: "fst (resetPassword d e' newPassword tokenId db') \<noteq> Resolved (Failure invalid_code)"
    using found
    by (auto simp: resetPassword_def await_def lucia_invalidateUserSessions_def
        lucia_createSession_def insert_session_def Let_def
        split: prod.splits promise.splits)
  have success: "fst (resetPassword d e' newPassword tokenId db') = Resolved (Success (randomSessionId e'))"
    if "\<not> dbTimestamp d (now e + milliseconds 2 Hours) < now e'"
      and "password_hash d (randomSalt e') newPassword = Resolved passwordHash"
      and "randomSessionId e' \<notin> s_id ` set (sessions db')" for passwordHash
    using found that(1,2)
    by (simp add: resetPassword_def lucia_invalidateUserSessions_def Let_def
        lucia_createSession_fresh [OF fresh [OF that(3)]])
  show ?thesis using facts found not_invalid success by auto
qed

text \<open>
  The round trip at a concrete call: the request on \<open>db0\<close> leaves \<open>db1\<close>, on which
  the reset succeeds.
\<close>

theorem reset_round_trip_witness:
  "resetPasswordRequest deps0 env0 ''https://test.com'' ''a@test.com'' db0 =
     (Resolved (Success ''tok''), db1)
   \<and> find (\<lambda>t. t_tokenHash t = sha256_hex deps0 ''tok'') (passwordResetTokens db1) = Some token0
   \<and> fst (resetPassword deps0 env0 ''newPassword'' ''tok'' db1) \<noteq> Resolved (Failure invalid_code)
   \<and> \<not> dbTimestamp deps0 (now env0 + milliseconds 2 Hours) < now env0
   \<and> password_hash deps0 (randomSalt env0) ''newPassword'' = Resolved ''salt$newPassword''
   \<and> randomSessionId env0 \<notin> s_id ` set (sessions db1)
   \<and> fst (resetPassword deps0 env0 ''newPassword'' ''tok'' db1) = Resolved (Success ''s2'')"
proof -
  have a: "resetPasswordRequest deps0 env0 ''https://test.com'' ''a@test.com'' db0 =
     (Resolved (Success ''tok''), db1)"
    by (simp add: resetPasswordRequest_def createPasswordResetToken_def
        insert_passwordResetToken_def createDate_def Let_def deps0_def env0_def db0_def
        db1_def user0_def token0_def)
  have b: "find (\<lambda>t. t_tokenHash t = sha256_hex deps0 ''tok'') (passwordResetTokens db1) = Some token0"
    by (simp add: db1_def token0_def deps0_def)
  have c: "\<not> dbTimestamp deps0 (now env0 + milliseconds 2 Hours) < now env0"
    by (simp add: deps0_def env0_def)
  have h: "password_hash deps0 (randomSalt env0) ''newPassword'' = Resolved ''salt$newPassword''"
    by (simp add: deps0_def env0_def)
  have f: "randomSessionId env0 \<notin> s_id ` set (sessions db1)"
    by (simp add: env0_def db1_def session0_def)
  note t = reset_round_trip [OF a, where e' = env0 and newPassword = "''newPassword''"]
  have r1: "fst (resetPassword deps0 env0 ''newPassword'' ''tok'' db1) \<noteq> Resolved (Failure invalid_code)"
    using t by blast
  have r2: "fst (resetPassword deps0 env0 ''newPassword'' ''tok'' db1) =
      Resolved (Success (randomSessionId env0))"
    using t c h f by blast
  have r2': "fst (resetPassword deps0 env0 ''newPassword'' ''tok'' db1) = Resolved (Success ''s2'')"
    using r2 by (simp add: env0_def)
  show ?thesis using a b c h f r1 r2' by simp
qed

end
